theory Spec2Isabelle
  imports Complex_Main
begin

section \<open>Stock status of an inventory row\<close>

text \<open>
  The stock status is computed inside the SQL text of three queries, each with the same
  \<^verbatim>\<open>CASE WHEN i.quantity <= i.reorder_level THEN 'Low Stock'
       WHEN i.quantity <= i.reorder_level * 2 THEN 'Medium Stock'
       ELSE 'High Stock' END\<close>
  expression. The columns \<^verbatim>\<open>quantity INTEGER\<close> and \<^verbatim>\<open>reorder_level INTEGER\<close> carry no
  \<^verbatim>\<open>NOT NULL\<close> constraint, so a column value is an integer or NULL (\<open>None\<close>). A comparison
  or a product with a NULL operand is NULL, and a \<^verbatim>\<open>WHEN\<close> branch is taken only when its
  condition is true.

  SQLite integers are 64-bit; a product that leaves that range is computed in floating
  point. For \<open>reorder_level * 2\<close> this never changes the outcome of the \<^verbatim>\<open>CASE\<close>: the only
  rounded products that compare differently from the exact ones need
  \<open>quantity = - 2 ^ 63\<close>, where the first branch has already been taken. The columns are
  therefore modelled as unbounded integers.
\<close>

definition sql_le :: "int option \<Rightarrow> int option \<Rightarrow> bool option" where
  "sql_le a b = (case a of None \<Rightarrow> None
                 | Some x \<Rightarrow> (case b of None \<Rightarrow> None | Some y \<Rightarrow> Some (x \<le> y)))"

definition sql_mul :: "int option \<Rightarrow> int option \<Rightarrow> int option" where
  "sql_mul a b = (case a of None \<Rightarrow> None
                  | Some x \<Rightarrow> (case b of None \<Rightarrow> None | Some y \<Rightarrow> Some (x * y)))"

definition sql_when :: "bool option \<Rightarrow> bool" where
  "sql_when c = (c = Some True)"

text \<open>\<^verbatim>\<open>AnalyticsEngine.getInventoryInsights\<close>, column \<^verbatim>\<open>stock_status\<close>.\<close>

definition getInventoryInsights_stock_status :: "int option \<Rightarrow> int option \<Rightarrow> string" where
  "getInventoryInsights_stock_status quantity reorder_level =
     (if sql_when (sql_le quantity reorder_level) then ''Low Stock''
      else if sql_when (sql_le quantity (sql_mul reorder_level (Some 2))) then ''Medium Stock''
      else ''High Stock'')"

text \<open>\<^verbatim>\<open>InventoryService.checkInventoryLevels\<close>, column \<^verbatim>\<open>stock_status\<close>.\<close>

definition checkInventoryLevels_stock_status :: "int option \<Rightarrow> int option \<Rightarrow> string" where
  "checkInventoryLevels_stock_status quantity reorder_level =
     (if sql_when (sql_le quantity reorder_level) then ''Low Stock''
      else if sql_when (sql_le quantity (sql_mul reorder_level (Some 2))) then ''Medium Stock''
      else ''High Stock'')"

text \<open>\<^verbatim>\<open>ReportGenerator.exportInventoryData\<close>, column \<^verbatim>\<open>stock_status\<close>.\<close>

definition exportInventoryData_stock_status :: "int option \<Rightarrow> int option \<Rightarrow> string" where
  "exportInventoryData_stock_status quantity reorder_level =
     (if sql_when (sql_le quantity reorder_level) then ''Low Stock''
      else if sql_when (sql_le quantity (sql_mul reorder_level (Some 2))) then ''Medium Stock''
      else ''High Stock'')"

text \<open>
  The rule in the words of the specification, on a row whose two columns hold numbers:
  quantity at most the reorder level is "Low Stock", otherwise at most twice the reorder
  level is "Medium Stock", otherwise "High Stock".
\<close>

definition stock_status_rule :: "int \<Rightarrow> int \<Rightarrow> string" where
  "stock_status_rule quantity reorderLevel =
     (if quantity \<le> reorderLevel then ''Low Stock''
      else if quantity \<le> 2 * reorderLevel then ''Medium Stock''
      else ''High Stock'')"


section \<open>Report Assembler: recommendations and implementation plan\<close>

text \<open>
  \<^verbatim>\<open>[...new Set(recommendations)]\<close>: a JavaScript \<open>Set\<close> built from an array inserts the
  elements from left to right, an element that is already a member is not inserted
  again, and spreading the set lists its members in insertion order.
\<close>

definition set_add :: "string list \<Rightarrow> string \<Rightarrow> string list" where
  "set_add members x = (if x \<in> set members then members else members @ [x])"

definition new_Set :: "string list \<Rightarrow> string list" where
  "new_Set xs = foldl set_add [] xs"

text \<open>
  "Exact duplicates removed, first-seen order preserved", written directly: the head
  stays where it is and its later copies are dropped.
\<close>

fun first_seen :: "string list \<Rightarrow> string list" where
  "first_seen [] = []"
| "first_seen (x # xs) = x # first_seen (filter (\<lambda>y. y \<noteq> x) xs)"

record plan_item =
  recommendation :: string
  timeline :: string
  resources :: string
  priority :: string

record implementation_plan =
  immediate :: "plan_item list"
  shortTerm :: "plan_item list"
  longTerm :: "plan_item list"

definition immediate_item :: "string \<Rightarrow> plan_item" where
  "immediate_item rec = \<lparr>recommendation = rec, timeline = ''1-2 weeks'',
     resources = ''Internal team'', priority = ''High''\<rparr>"

definition shortTerm_item :: "string \<Rightarrow> plan_item" where
  "shortTerm_item rec = \<lparr>recommendation = rec, timeline = ''1-3 months'',
     resources = ''Internal team + external consultants'', priority = ''Medium''\<rparr>"

definition longTerm_item :: "string \<Rightarrow> plan_item" where
  "longTerm_item rec = \<lparr>recommendation = rec, timeline = ''3-6 months'',
     resources = ''Strategic planning team'', priority = ''Low''\<rparr>"

text \<open>The body of the \<^verbatim>\<open>forEach((rec, index) => ...)\<close> callback.\<close>

definition plan_push :: "implementation_plan \<Rightarrow> string \<Rightarrow> nat \<Rightarrow> implementation_plan" where
  "plan_push plan rec index =
     (if index < 2 then plan\<lparr>immediate := immediate plan @ [immediate_item rec]\<rparr>
      else if index < 4 then plan\<lparr>shortTerm := shortTerm plan @ [shortTerm_item rec]\<rparr>
      else plan\<lparr>longTerm := longTerm plan @ [longTerm_item rec]\<rparr>)"

text \<open>\<^verbatim>\<open>forEach\<close> from a given index on, threading the plan that the callback mutates.\<close>

fun forEach_from :: "nat \<Rightarrow> string list \<Rightarrow> implementation_plan \<Rightarrow> implementation_plan" where
  "forEach_from index [] plan = plan"
| "forEach_from index (rec # recs) plan = forEach_from (Suc index) recs (plan_push plan rec index)"

definition generateImplementationPlan :: "string list \<Rightarrow> implementation_plan" where
  "generateImplementationPlan recommendations =
     forEach_from 0 recommendations \<lparr>immediate = [], shortTerm = [], longTerm = []\<rparr>"

record recommendations_report =
  rec_priority :: "string list"
  rec_all :: "string list"
  rec_implementation :: implementation_plan

text \<open>
  \<^verbatim>\<open>ReportGenerator.generateRecommendations\<close>. Its three arguments here are the
  \<^verbatim>\<open>recommendations\<close> arrays of the results of \<^verbatim>\<open>getCustomerAnalytics\<close>,
  \<^verbatim>\<open>getSalesPerformance\<close> and \<^verbatim>\<open>getInventoryInsights\<close>, in the order in which the source
  spreads them into one array.
\<close>

definition generateRecommendations ::
  "string list \<Rightarrow> string list \<Rightarrow> string list \<Rightarrow> recommendations_report" where
  "generateRecommendations customerRecs salesRecs inventoryRecs =
     (let recommendations = customerRecs @ salesRecs @ inventoryRecs;
          uniqueRecommendations = new_Set recommendations
      in \<lparr>rec_priority = take 5 uniqueRecommendations,
          rec_all = uniqueRecommendations,
          rec_implementation = generateImplementationPlan uniqueRecommendations\<rparr>)"


section \<open>JavaScript numbers\<close>

text \<open>
  A JavaScript number is an IEEE 754 double. The derived metrics are decided by the
  special values, so a number is modelled as a finite real, one of the two infinities,
  or NaN, with the IEEE rules for every operation that meets a special value or a zero
  divisor. Two things are idealised: finite results are exact (no rounding, no overflow
  of a finite product), and the two zeros are one, so a quotient by zero takes the sign
  of its numerator alone.
\<close>

datatype jsnum = Num real | PosInf | NegInf | NaN

fun js_neg :: "jsnum \<Rightarrow> jsnum" where
  "js_neg (Num x) = Num (- x)"
| "js_neg PosInf = NegInf"
| "js_neg NegInf = PosInf"
| "js_neg NaN = NaN"

fun js_add :: "jsnum \<Rightarrow> jsnum \<Rightarrow> jsnum" where
  "js_add NaN b = NaN"
| "js_add a NaN = NaN"
| "js_add (Num x) (Num y) = Num (x + y)"
| "js_add (Num x) b = b"
| "js_add a (Num y) = a"
| "js_add a b = (if a = b then a else NaN)"

definition js_sub :: "jsnum \<Rightarrow> jsnum \<Rightarrow> jsnum" where
  "js_sub a b = js_add a (js_neg b)"

text \<open>The sign of an infinity or of a finite number; a zero counts as positive.\<close>

fun js_positive :: "jsnum \<Rightarrow> bool" where
  "js_positive (Num x) = (0 \<le> x)"
| "js_positive PosInf = True"
| "js_positive NegInf = False"
| "js_positive NaN = False"

definition js_signed_inf :: "bool \<Rightarrow> jsnum" where
  "js_signed_inf positive = (if positive then PosInf else NegInf)"

fun js_mul :: "jsnum \<Rightarrow> jsnum \<Rightarrow> jsnum" where
  "js_mul NaN b = NaN"
| "js_mul a NaN = NaN"
| "js_mul (Num x) (Num y) = Num (x * y)"
| "js_mul a b =
     (if a = Num 0 \<or> b = Num 0 then NaN
      else js_signed_inf (js_positive a = js_positive b))"

fun js_div :: "jsnum \<Rightarrow> jsnum \<Rightarrow> jsnum" where
  "js_div NaN b = NaN"
| "js_div a NaN = NaN"
| "js_div (Num x) (Num y) =
     (if y \<noteq> 0 then Num (x / y)
      else if x = 0 then NaN
      else js_signed_inf (0 < x))"
| "js_div (Num x) b = Num 0"
| "js_div a (Num y) = js_signed_inf (js_positive a = (0 \<le> y))"
| "js_div a b = NaN"

text \<open>The relational operators: every comparison with NaN is false.\<close>

fun js_lt :: "jsnum \<Rightarrow> jsnum \<Rightarrow> bool" where
  "js_lt NaN b = False"
| "js_lt a NaN = False"
| "js_lt (Num x) (Num y) = (x < y)"
| "js_lt a b = (a \<noteq> b \<and> (a = NegInf \<or> b = PosInf))"

definition js_gt :: "jsnum \<Rightarrow> jsnum \<Rightarrow> bool" where
  "js_gt a b = js_lt b a"

definition js_ge :: "jsnum \<Rightarrow> jsnum \<Rightarrow> bool" where
  "js_ge a b = (a \<noteq> NaN \<and> b \<noteq> NaN \<and> \<not> js_lt a b)"

text \<open>\<^verbatim>\<open>Math.max\<close> of two arguments: NaN as soon as one argument is NaN.\<close>

definition Math_max :: "jsnum \<Rightarrow> jsnum \<Rightarrow> jsnum" where
  "Math_max a b = (if a = NaN \<or> b = NaN then NaN else if js_lt a b then b else a)"

text \<open>\<^verbatim>\<open>Math.pow\<close> with an exponent that is a natural number, as the loop counters are.\<close>

fun Math_pow :: "jsnum \<Rightarrow> nat \<Rightarrow> jsnum" where
  "Math_pow b 0 = Num 1"
| "Math_pow (Num x) n = Num (x ^ n)"
| "Math_pow PosInf n = PosInf"
| "Math_pow NegInf n = (if odd n then NegInf else PosInf)"
| "Math_pow NaN n = NaN"

text \<open>
  A nullable SQL aggregate (\<^verbatim>\<open>SUM\<close> over no rows is NULL) reaches JavaScript as a number
  or \<^verbatim>\<open>null\<close>; in arithmetic \<^verbatim>\<open>null\<close> converts to \<open>0\<close>.
\<close>

fun ToNumber :: "real option \<Rightarrow> jsnum" where
  "ToNumber None = Num 0"
| "ToNumber (Some x) = Num x"


section \<open>Analytics Engine: ratio metrics\<close>

text \<open>
  The rows the retention query reads are the rows of \<^verbatim>\<open>orders o JOIN customers c\<close> that
  satisfy the compiled WHERE clause. Of such a row the query needs the column
  \<^verbatim>\<open>customer_id\<close>, which only \<^verbatim>\<open>orders\<close> has.

  The fulfillment and cancellation rates of \<^verbatim>\<open>getOperationalMetrics\<close> have no definition
  here. Their aggregate statement names the column \<^verbatim>\<open>status\<close> without a table alias, and
  both joined tables have a column of that name, so the store rejects the statement and
  the method throws before either quotient is computed.
\<close>

record order_row =
  o_customer_id :: string

record customer_retention =
  total_customers :: nat
  repeat_customers :: nat

text \<open>
  The retention query of \<^verbatim>\<open>analyzeCustomerBehavior\<close>: the inner query groups the rows by
  customer id and counts each group; the outer one counts the distinct customers and the
  distinct customers whose group has more than one order.
\<close>

definition order_count :: "order_row list \<Rightarrow> string \<Rightarrow> nat" where
  "order_count rows cid = length (filter (\<lambda>r. o_customer_id r = cid) rows)"

definition customerRetention_query :: "order_row list \<Rightarrow> customer_retention" where
  "customerRetention_query rows =
     (let customers = remdups (map o_customer_id rows)
      in \<lparr>total_customers = length customers,
          repeat_customers = length (filter (\<lambda>cid. 1 < order_count rows cid) customers)\<rparr>)"

definition retentionRate :: "customer_retention \<Rightarrow> jsnum" where
  "retentionRate customerRetention =
     js_mul (js_div (Num (real (repeat_customers customerRetention)))
                    (Num (real (total_customers customerRetention)))) (Num 100)"

definition analyzeCustomerBehavior_retentionRate :: "order_row list \<Rightarrow> jsnum" where
  "analyzeCustomerBehavior_retentionRate rows = retentionRate (customerRetention_query rows)"

text \<open>
  \<^verbatim>\<open>getFinancialSummary\<close>: the margin is the sum of the \<^verbatim>\<open>profit\<close> column of the product
  rows over \<^verbatim>\<open>SUM(o.total_amount)\<close>, which is NULL when no order is selected.
\<close>

definition totalProfit :: "real option list \<Rightarrow> jsnum" where
  "totalProfit profits = foldl (\<lambda>sum profit. js_add sum (ToNumber profit)) (Num 0) profits"

definition overallMargin :: "real option list \<Rightarrow> real option \<Rightarrow> jsnum" where
  "overallMargin profits total_revenue =
     js_mul (js_div (totalProfit profits) (ToNumber total_revenue)) (Num 100)"


section \<open>Analytics Engine: trend and forecast\<close>

text \<open>
  A row of the monthly history: \<^verbatim>\<open>strftime('%Y-%m', order_date) as month\<close>,
  \<^verbatim>\<open>SUM(total_amount) as revenue\<close> (NULL when every amount of the month is NULL) and
  \<^verbatim>\<open>COUNT(*) as orders\<close>. The query returns the rows most recent month first.
\<close>

record month_row =
  month :: string
  revenue :: "real option"
  orders :: nat

text \<open>\<^verbatim>\<open>rows.reduce((sum, month) => sum + month.revenue, 0) / rows.length\<close>.\<close>

definition sum_revenue :: "month_row list \<Rightarrow> jsnum" where
  "sum_revenue rows = foldl (\<lambda>sum m. js_add sum (ToNumber (revenue m))) (Num 0) rows"

definition avg_revenue :: "month_row list \<Rightarrow> jsnum" where
  "avg_revenue rows = js_div (sum_revenue rows) (Num (real (length rows)))"

text \<open>\<^verbatim>\<open>historicalData.slice(0, 6)\<close> and \<^verbatim>\<open>historicalData.slice(6, 12)\<close>.\<close>

definition recentMonths :: "month_row list \<Rightarrow> month_row list" where
  "recentMonths historicalData = take 6 historicalData"

definition olderMonths :: "month_row list \<Rightarrow> month_row list" where
  "olderMonths historicalData = take 6 (drop 6 historicalData)"

text \<open>\<^verbatim>\<open>AnalyticsEngine.predictSalesTrends\<close>: the growth rate carries no guard.\<close>

definition predictSalesTrends_growthRate :: "month_row list \<Rightarrow> jsnum" where
  "predictSalesTrends_growthRate historicalData =
     (let recentAvg = avg_revenue (recentMonths historicalData);
          olderAvg = avg_revenue (olderMonths historicalData)
      in js_mul (js_div (js_sub recentAvg olderAvg) olderAvg) (Num 100))"

text \<open>
  \<^verbatim>\<open>SalesService.getSalesForecast\<close> computes the same two averages and guards the
  quotient: \<^verbatim>\<open>olderAvg > 0 ? ((recentAvg - olderAvg) / olderAvg) * 100 : 0\<close>.
\<close>

definition getSalesForecast_growthRate :: "month_row list \<Rightarrow> jsnum" where
  "getSalesForecast_growthRate historicalData =
     (let recentAvg = avg_revenue (recentMonths historicalData);
          olderAvg = avg_revenue (olderMonths historicalData)
      in if js_gt olderAvg (Num 0)
         then js_mul (js_div (js_sub recentAvg olderAvg) olderAvg) (Num 100)
         else Num 0)"

record forecast_point =
  forecast_month :: string
  predicted_revenue :: jsnum
  confidence :: jsnum

text \<open>
  The forecast loop of \<^verbatim>\<open>predictSalesTrends\<close>, \<^verbatim>\<open>for (let i = 1; i <= 3; i++)\<close>. The month
  label of a point is read from the clock; \<open>month_label i\<close> stands for the label of the
  month \<open>i\<close> months ahead.
\<close>

definition predictSalesTrends_point :: "(nat \<Rightarrow> string) \<Rightarrow> jsnum \<Rightarrow> jsnum \<Rightarrow> nat \<Rightarrow> forecast_point" where
  "predictSalesTrends_point month_label recentAvg growthRate i =
     (let forecastRevenue =
            js_mul recentAvg
              (js_add (Num 1) (js_mul (js_div growthRate (Num 100)) (Num (real i))))
      in \<lparr>forecast_month = month_label i,
          predicted_revenue = Math_max (Num 0) forecastRevenue,
          confidence = Math_max (Num 0.5) (js_sub (Num 1) (js_mul (Num (real i)) (Num 0.1)))\<rparr>)"

definition predictSalesTrends_forecast :: "(nat \<Rightarrow> string) \<Rightarrow> month_row list \<Rightarrow> forecast_point list" where
  "predictSalesTrends_forecast month_label historicalData =
     map (predictSalesTrends_point month_label
            (avg_revenue (recentMonths historicalData))
            (predictSalesTrends_growthRate historicalData))
         [1 ..< 4]"

text \<open>
  \<^verbatim>\<open>AnalyticsEngine.getRevenueForecast\<close>: the growth rate compares the two most recent
  months of \<^verbatim>\<open>monthlyGrowth\<close>, and the forecast compounds it over 12 months from
  \<^verbatim>\<open>currentRevenue.total_revenue\<close>, a nullable \<^verbatim>\<open>SUM\<close>. Its points name the clamped value
  \<^verbatim>\<open>forecasted_revenue\<close>; the record field \<open>predicted_revenue\<close> holds it here.
\<close>

definition getRevenueForecast_growthRate :: "month_row list \<Rightarrow> jsnum" where
  "getRevenueForecast_growthRate monthlyGrowth =
     (if 1 < length monthlyGrowth
      then js_mul (js_div (js_sub (ToNumber (revenue (monthlyGrowth ! 0)))
                                  (ToNumber (revenue (monthlyGrowth ! 1))))
                          (ToNumber (revenue (monthlyGrowth ! 1)))) (Num 100)
      else Num 0)"

definition getRevenueForecast_point :: "(nat \<Rightarrow> string) \<Rightarrow> real option \<Rightarrow> jsnum \<Rightarrow> nat \<Rightarrow> forecast_point" where
  "getRevenueForecast_point month_label total_revenue growthRate i =
     (let forecastRevenue =
            js_mul (ToNumber total_revenue)
              (Math_pow (js_add (Num 1) (js_div growthRate (Num 100))) i)
      in \<lparr>forecast_month = month_label i,
          predicted_revenue = Math_max (Num 0) forecastRevenue,
          confidence = Math_max (Num 0.3) (js_sub (Num 1) (js_mul (Num (real i)) (Num 0.05)))\<rparr>)"

definition getRevenueForecast_forecast ::
  "(nat \<Rightarrow> string) \<Rightarrow> real option \<Rightarrow> month_row list \<Rightarrow> forecast_point list" where
  "getRevenueForecast_forecast month_label total_revenue monthlyGrowth =
     map (getRevenueForecast_point month_label total_revenue
            (getRevenueForecast_growthRate monthlyGrowth))
         [1 ..< 13]"

text \<open>A list of numbers is non-increasing when no element is less than its successor.\<close>

fun non_increasing :: "jsnum list \<Rightarrow> bool" where
  "non_increasing (a # b # rest) = (js_ge a b \<and> non_increasing (b # rest))"
| "non_increasing rest = True"


section \<open>Filter Compiler: \<^verbatim>\<open>buildWhereClause\<close>\<close>

text \<open>
  The \<^verbatim>\<open>Filters\<close> and \<^verbatim>\<open>DateRange\<close> interfaces of the Analytics Engine: every field is
  optional (\<open>None\<close> when absent). The field \<^verbatim>\<open>end\<close> of a date range is \<open>end_date\<close> here and
  \<^verbatim>\<open>start\<close> is \<open>start_date\<close>.
\<close>

record Filters =
  customerTier :: "string list option"
  industry :: "string list option"
  region :: "string list option"
  productCategory :: "string list option"
  status :: "string list option"

record DateRange =
  start_date :: "string option"
  end_date :: "string option"

text \<open>\<^verbatim>\<open>Array.prototype.join\<close> on strings.\<close>

fun join :: "string \<Rightarrow> string list \<Rightarrow> string" where
  "join sep [] = []"
| "join sep [x] = x"
| "join sep (x # y # ys) = x @ sep @ join sep (y # ys)"

text \<open>The template \<^verbatim>\<open>`'${v}'`\<close>: the value between two apostrophes, unchanged.\<close>

definition quoted :: "string \<Rightarrow> string" where
  "quoted v = CHR 0x27 # v @ [CHR 0x27]"

text \<open>
  One \<^verbatim>\<open>if (filters.k && filters.k.length > 0) conditions.push(`col IN (${...})`)\<close> block:
  the conditions it pushes for a column and the filter's value.
\<close>

definition in_condition :: "string \<Rightarrow> string list option \<Rightarrow> string list" where
  "in_condition column values =
     (case values of
        None \<Rightarrow> []
      | Some vs \<Rightarrow>
          if 0 < length vs then [column @ '' IN ('' @ join '', '' (map quoted vs) @ '')'']
          else [])"

text \<open>
  One \<^verbatim>\<open>if (dateRange?.start) conditions.push(`o.order_date >= '${dateRange.start}'`)\<close>
  block; an empty string is falsy.
\<close>

definition date_condition :: "string \<Rightarrow> string option \<Rightarrow> string list" where
  "date_condition comparison d =
     (case d of
        None \<Rightarrow> []
      | Some s \<Rightarrow> if s \<noteq> [] then [comparison @ quoted s] else [])"

definition where_text :: "string list \<Rightarrow> string" where
  "where_text conditions =
     (if 0 < length conditions then ''WHERE '' @ join '' AND '' conditions else [])"

text \<open>\<^verbatim>\<open>AnalyticsEngine.buildWhereClause\<close>.\<close>

definition buildWhereClause :: "Filters \<Rightarrow> DateRange option \<Rightarrow> string" where
  "buildWhereClause filters dateRange =
     where_text
       (in_condition ''c.customer_tier'' (customerTier filters)
        @ in_condition ''c.industry'' (industry filters)
        @ in_condition ''o.region'' (region filters)
        @ in_condition ''p.category'' (productCategory filters)
        @ in_condition ''o.status'' (status filters)
        @ date_condition ''o.order_date >= '' (case dateRange of None \<Rightarrow> None | Some d \<Rightarrow> start_date d)
        @ date_condition ''o.order_date <= '' (case dateRange of None \<Rightarrow> None | Some d \<Rightarrow> end_date d))"

text \<open>\<^verbatim>\<open>SalesService.buildWhereClause\<close>: the same without the product category.\<close>

definition SalesService_buildWhereClause :: "Filters \<Rightarrow> DateRange option \<Rightarrow> string" where
  "SalesService_buildWhereClause filters dateRange =
     where_text
       (in_condition ''c.customer_tier'' (customerTier filters)
        @ in_condition ''c.industry'' (industry filters)
        @ in_condition ''o.region'' (region filters)
        @ in_condition ''o.status'' (status filters)
        @ date_condition ''o.order_date >= '' (case dateRange of None \<Rightarrow> None | Some d \<Rightarrow> start_date d)
        @ date_condition ''o.order_date <= '' (case dateRange of None \<Rightarrow> None | Some d \<Rightarrow> end_date d))"

text \<open>
  A sibling that binds: \<^verbatim>\<open>InventoryService.checkInventoryLevels\<close> pushes the placeholder
  text \<^verbatim>\<open>p.category = ?\<close> and passes the value in a separate parameter list.
\<close>

record inventory_filters =
  category :: "string option"
  warehouse :: "string option"
  lowStockOnly :: bool

definition checkInventoryLevels_where :: "inventory_filters \<Rightarrow> string \<times> string list" where
  "checkInventoryLevels_where filters =
     (let c1 = ([''p.status = \"active\"''], []);
          c2 = (case category filters of
                  None \<Rightarrow> c1
                | Some v \<Rightarrow> if v \<noteq> [] then (fst c1 @ [''p.category = ?''], snd c1 @ [v]) else c1);
          c3 = (case warehouse filters of
                  None \<Rightarrow> c2
                | Some v \<Rightarrow> if v \<noteq> [] then (fst c2 @ [''i.warehouse = ?''], snd c2 @ [v]) else c2);
          c4 = (if lowStockOnly filters
                then (fst c3 @ [''i.quantity <= i.reorder_level''], snd c3) else c3)
      in (''WHERE '' @ join '' AND '' (fst c4), snd c4))"

text \<open>
  The first statement of \<^verbatim>\<open>getOperationalMetrics\<close>: the text handed to the store, with
  the line breaks and indentation of the template written as single spaces.
\<close>

definition orderMetrics_sql :: "Filters \<Rightarrow> DateRange option \<Rightarrow> string" where
  "orderMetrics_sql filters dateRange =
     ''SELECT COUNT(*) as total_orders, ''
     @ ''COUNT(CASE WHEN status = 'delivered' THEN 1 END) as delivered_orders, ''
     @ ''COUNT(CASE WHEN status = 'cancelled' THEN 1 END) as cancelled_orders, ''
     @ ''AVG(julianday('now') - julianday(order_date)) as avg_order_age_days ''
     @ ''FROM orders o JOIN customers c ON o.customer_id = c.id ''
     @ buildWhereClause filters dateRange"


section \<open>Errors\<close>

text \<open>
  The source throws \<^verbatim>\<open>Error\<close> objects that differ in their message only; each message is
  a constructor here, named after the validation failure it reports:
  \<^item> \<open>MissingRequiredParameters\<close>: \<^verbatim>\<open>'Missing required parameters'\<close>;
  \<^item> \<open>InvalidToolName\<close>: \<^verbatim>\<open>'Invalid tool name'\<close>;
  \<^item> \<open>SchemaError\<close>: the \<^verbatim>\<open>ZodError\<close> of a failed \<^verbatim>\<open>BusinessIntelligenceToolSchema.parse\<close>;
  \<^item> \<open>UnknownOperation op\<close>: \<^verbatim>\<open>`Unknown operation: ${operation}`\<close>;
  \<^item> \<open>InvalidFilterKey key\<close>: \<^verbatim>\<open>`Invalid filter key: ${key}`\<close>;
  \<^item> \<open>InvalidFilterValueType key\<close>: \<^verbatim>\<open>`Invalid filter value type for ${key}`\<close>;
  \<^item> \<open>InvalidStartDateFormat\<close>, \<open>InvalidEndDateFormat\<close>: \<^verbatim>\<open>'Invalid start date format'\<close>
    and \<^verbatim>\<open>'Invalid end date format'\<close>;
  \<^item> \<open>InvalidDateRange\<close>: \<^verbatim>\<open>'Start date cannot be after end date'\<close>;
  \<^item> \<open>MissingRequiredFields\<close>:
    \<^verbatim>\<open>'Missing required fields: customerId, productId, quantity, estimatedValue'\<close>;
  \<^item> \<open>CustomerNotFound id\<close>, \<open>ProductNotFound id\<close>: \<^verbatim>\<open>`Customer with ID ${id} not found`\<close>
    and \<^verbatim>\<open>`Product with ID ${id} not found`\<close>.
\<close>

datatype error =
    MissingRequiredParameters
  | InvalidToolName
  | SchemaError
  | UnknownOperation string
  | InvalidFilterKey string
  | InvalidFilterValueType string
  | InvalidStartDateFormat
  | InvalidEndDateFormat
  | InvalidDateRange
  | MissingRequiredFields
  | CustomerNotFound string
  | ProductNotFound string



section \<open>Security manager: validators\<close>

text \<open>A JSON value, as the untyped \<^verbatim>\<open>filters\<close> and \<^verbatim>\<open>parameters\<close> bags hold them.\<close>

datatype jsval =
    JNull
  | JBool bool
  | JNumber real
  | JString string
  | JArray "jsval list"
  | JObject "(string \<times> jsval) list"

fun is_string :: "jsval \<Rightarrow> bool" where
  "is_string (JString s) = True"
| "is_string v = False"

definition validFilterKeys :: "string list" where
  "validFilterKeys = [''customerTier'', ''industry'', ''region'', ''productCategory'', ''status'']"

text \<open>
  \<^verbatim>\<open>SecurityManager.validateFilters\<close>. The loop runs over the entries of the object in key
  order and throws at the first offending entry; \<open>None\<close> is an absent (falsy) \<^verbatim>\<open>filters\<close>.
\<close>

fun validateFilters_entries :: "(string \<times> jsval) list \<Rightarrow> error + bool" where
  "validateFilters_entries [] = Inr True"
| "validateFilters_entries ((key, v) # rest) =
     (if key \<notin> set validFilterKeys then Inl (InvalidFilterKey key)
      else (case v of
              JArray vs \<Rightarrow>
                if list_ex (\<lambda>x. \<not> is_string x) vs then Inl (InvalidFilterValueType key)
                else validateFilters_entries rest
            | _ \<Rightarrow> validateFilters_entries rest))"

definition validateFilters :: "(string \<times> jsval) list option \<Rightarrow> error + bool" where
  "validateFilters filters =
     (case filters of None \<Rightarrow> Inr True | Some entries \<Rightarrow> validateFilters_entries entries)"

text \<open>
  \<^verbatim>\<open>SecurityManager.validateDateRange\<close>. What \<^verbatim>\<open>new Date(s)\<close> accepts beyond the ECMAScript
  date formats is left to the engine, so the parser is a parameter: \<open>parse s\<close> is the time
  value of \<^verbatim>\<open>new Date(s)\<close>, \<open>None\<close> for an invalid date. An empty string is falsy and counts
  as absent.
\<close>

definition isValidDate :: "(string \<Rightarrow> int option) \<Rightarrow> string \<Rightarrow> bool" where
  "isValidDate parse dateString = (parse dateString \<noteq> None)"

definition present :: "string option \<Rightarrow> bool" where
  "present s = (case s of None \<Rightarrow> False | Some v \<Rightarrow> v \<noteq> [])"

definition validateDateRange :: "(string \<Rightarrow> int option) \<Rightarrow> DateRange option \<Rightarrow> error + bool" where
  "validateDateRange parse dateRange =
     (case dateRange of
        None \<Rightarrow> Inr True
      | Some d \<Rightarrow>
          if present (start_date d) \<and> \<not> isValidDate parse (the (start_date d))
          then Inl InvalidStartDateFormat
          else if present (end_date d) \<and> \<not> isValidDate parse (the (end_date d))
          then Inl InvalidEndDateFormat
          else if present (start_date d) \<and> present (end_date d)
                  \<and> the (parse (the (end_date d))) < the (parse (the (start_date d)))
          then Inl InvalidDateRange
          else Inr True)"

text \<open>
  The date-only form \<^verbatim>\<open>YYYY-MM-DD\<close> of the ECMAScript date-time string format, read as UTC
  midnight: the time value is the day number since 1970-01-01 times the milliseconds of
  a day. Every other string is outside this parser (\<open>None\<close>).
\<close>

definition digit_value :: "char \<Rightarrow> nat option" where
  "digit_value c =
     (if of_char (CHR ''0'') \<le> (of_char c :: nat) \<and> (of_char c :: nat) \<le> of_char (CHR ''9'')
      then Some (of_char c - of_char (CHR ''0'')) else None)"

fun digits_value :: "nat \<Rightarrow> string \<Rightarrow> nat option" where
  "digits_value acc [] = Some acc"
| "digits_value acc (c # cs) =
     (case digit_value c of None \<Rightarrow> None | Some d \<Rightarrow> digits_value (10 * acc + d) cs)"

text \<open>Days from 1970-01-01 to the first day of a month of the proleptic Gregorian calendar.\<close>

definition days_from_civil :: "int \<Rightarrow> int \<Rightarrow> int \<Rightarrow> int" where
  "days_from_civil y m d =
     (let y' = (if m \<le> 2 then y - 1 else y);
          era = y' div 400;
          yoe = y' - era * 400;
          doy = (153 * (if 2 < m then m - 3 else m + 9) + 2) div 5 + d - 1;
          doe = yoe * 365 + yoe div 4 - yoe div 100 + doy
      in era * 146097 + doe - 719468)"

definition parse_date_only :: "string \<Rightarrow> int option" where
  "parse_date_only s =
     (case s of
        [y1, y2, y3, y4, s1, m1, m2, s2, d1, d2] \<Rightarrow>
          (if s1 = CHR ''-'' \<and> s2 = CHR ''-'' then
             (case (digits_value 0 [y1, y2, y3, y4], digits_value 0 [m1, m2],
                    digits_value 0 [d1, d2]) of
                (Some y, Some m, Some d) \<Rightarrow>
                  if 1 \<le> m \<and> m \<le> 12 \<and> 1 \<le> d \<and> d \<le> 31
                  then Some (days_from_civil (int y) (int m) (int d) * 86400000)
                  else None
              | _ \<Rightarrow> None)
           else None)
      | _ \<Rightarrow> None)"


section \<open>Operation Dispatcher\<close>

text \<open>
  The arguments of a tool call as \<^verbatim>\<open>BusinessIntelligenceToolSchema\<close> types them:
  \<^verbatim>\<open>operation\<close> and \<^verbatim>\<open>format\<close> are strings still to be checked against their enumerations,
  \<^verbatim>\<open>parameters\<close> and \<^verbatim>\<open>filters\<close> are records of any values (\<^verbatim>\<open>z.record(z.any())\<close>: no key and
  no value is constrained), and \<^verbatim>\<open>dateRange\<close> has two optional strings. Arguments of
  another shape fail the parse and are not represented.
\<close>

record tool_args =
  operation :: string
  parameters :: "(string \<times> jsval) list option"
  filters :: "(string \<times> jsval) list option"
  dateRange :: "DateRange option"
  format :: "string option"

text \<open>
  A \<^verbatim>\<open>CallToolRequest\<close>: \<^verbatim>\<open>params.name\<close> and the optional \<^verbatim>\<open>params.arguments\<close>. The protocol
  layer delivers requests with \<^verbatim>\<open>params\<close> present, so the first check of
  \<^verbatim>\<open>validateRequest\<close> (\<^verbatim>\<open>!request || !request.params\<close>) cannot fire and has no branch here.
\<close>

record request =
  name :: string
  arguments :: "tool_args option"

definition validTools :: "string list" where
  "validTools = [''business_intelligence'']"

text \<open>\<^verbatim>\<open>SecurityManager.validateRequest\<close>.\<close>

definition validateRequest :: "request \<Rightarrow> error + bool" where
  "validateRequest req =
     (if name req = [] \<or> arguments req = None then Inl MissingRequiredParameters
      else if name req \<notin> set validTools then Inl InvalidToolName
      else Inr True)"

definition operations :: "string list" where
  "operations =
     [''get_customer_analytics'', ''get_sales_performance'', ''get_inventory_insights'',
      ''generate_business_report'', ''predict_sales_trends'', ''analyze_customer_behavior'',
      ''get_revenue_forecast'', ''identify_top_products'', ''analyze_market_segments'',
      ''get_operational_metrics'', ''search_customers'', ''get_customer_details'',
      ''update_customer_info'', ''check_inventory_levels'', ''get_product_performance'',
      ''create_sales_opportunity'', ''get_order_analytics'', ''analyze_geographic_sales'',
      ''get_financial_summary'', ''export_data'']"

definition formats :: "string list" where
  "formats = [''json'', ''csv'', ''pdf'']"

text \<open>\<^verbatim>\<open>BusinessIntelligenceToolSchema.parse\<close> on arguments of the typed shape.\<close>

definition schema_parse :: "tool_args \<Rightarrow> error + tool_args" where
  "schema_parse args =
     (if operation args \<notin> set operations then Inl SchemaError
      else (case format args of
              None \<Rightarrow> Inr args
            | Some f \<Rightarrow> if f \<in> set formats then Inr args else Inl SchemaError))"

text \<open>
  The call a request is routed to: the service method and the arguments it receives,
  one constructor for each \<^verbatim>\<open>case\<close> of the \<^verbatim>\<open>switch\<close> in \<^verbatim>\<open>routeRequest\<close>.
\<close>

datatype handler_call =
    getCustomerAnalytics_call "(string \<times> jsval) list" "DateRange option"
  | getSalesPerformance_call "(string \<times> jsval) list" "DateRange option"
  | getInventoryInsights_call "(string \<times> jsval) list"
  | generateComprehensiveReport_call "(string \<times> jsval) list" "DateRange option" string
  | predictSalesTrends_call "(string \<times> jsval) list" "DateRange option"
  | analyzeCustomerBehavior_call "(string \<times> jsval) list" "DateRange option"
  | getRevenueForecast_call "(string \<times> jsval) list" "DateRange option"
  | identifyTopProducts_call "(string \<times> jsval) list" "DateRange option"
  | analyzeMarketSegments_call "(string \<times> jsval) list" "DateRange option"
  | getOperationalMetrics_call "(string \<times> jsval) list" "DateRange option"
  | searchCustomers_call "(string \<times> jsval) list"
  | getCustomerDetails_call "jsval option"
  | updateCustomerInfo_call "jsval option" "jsval option"
  | checkInventoryLevels_call "(string \<times> jsval) list"
  | getProductPerformance_call "(string \<times> jsval) list" "DateRange option"
  | createSalesOpportunity_call "(string \<times> jsval) list"
  | getOrderAnalytics_call "(string \<times> jsval) list" "DateRange option"
  | analyzeGeographicSales_call "(string \<times> jsval) list" "DateRange option"
  | getFinancialSummary_call "(string \<times> jsval) list" "DateRange option"
  | exportData_call "(string \<times> jsval) list" string

text \<open>
  \<^verbatim>\<open>routeRequest\<close>, with the defaults of its destructuring (\<^verbatim>\<open>parameters = {}\<close>,
  \<^verbatim>\<open>filters = {}\<close>, \<^verbatim>\<open>format = 'json'\<close>). It calls no validator: the filters and the date
  range reach the service method as they arrived.
\<close>

definition routeRequest :: "string \<Rightarrow> tool_args \<Rightarrow> error + handler_call" where
  "routeRequest toolName args =
     (let op = operation args;
          ps = (case parameters args of None \<Rightarrow> [] | Some p \<Rightarrow> p);
          fs = (case filters args of None \<Rightarrow> [] | Some f \<Rightarrow> f);
          dr = dateRange args;
          fmt = (case format args of None \<Rightarrow> ''json'' | Some f \<Rightarrow> f)
      in if op = ''get_customer_analytics'' then Inr (getCustomerAnalytics_call fs dr)
         else if op = ''get_sales_performance'' then Inr (getSalesPerformance_call fs dr)
         else if op = ''get_inventory_insights'' then Inr (getInventoryInsights_call fs)
         else if op = ''generate_business_report'' then Inr (generateComprehensiveReport_call fs dr fmt)
         else if op = ''predict_sales_trends'' then Inr (predictSalesTrends_call fs dr)
         else if op = ''analyze_customer_behavior'' then Inr (analyzeCustomerBehavior_call fs dr)
         else if op = ''get_revenue_forecast'' then Inr (getRevenueForecast_call fs dr)
         else if op = ''identify_top_products'' then Inr (identifyTopProducts_call fs dr)
         else if op = ''analyze_market_segments'' then Inr (analyzeMarketSegments_call fs dr)
         else if op = ''get_operational_metrics'' then Inr (getOperationalMetrics_call fs dr)
         else if op = ''search_customers'' then Inr (searchCustomers_call ps)
         else if op = ''get_customer_details'' then Inr (getCustomerDetails_call (map_of ps ''customerId''))
         else if op = ''update_customer_info''
           then Inr (updateCustomerInfo_call (map_of ps ''customerId'') (map_of ps ''data''))
         else if op = ''check_inventory_levels'' then Inr (checkInventoryLevels_call ps)
         else if op = ''get_product_performance'' then Inr (getProductPerformance_call fs dr)
         else if op = ''create_sales_opportunity'' then Inr (createSalesOpportunity_call ps)
         else if op = ''get_order_analytics'' then Inr (getOrderAnalytics_call fs dr)
         else if op = ''analyze_geographic_sales'' then Inr (analyzeGeographicSales_call fs dr)
         else if op = ''get_financial_summary'' then Inr (getFinancialSummary_call fs dr)
         else if op = ''export_data'' then Inr (exportData_call ps fmt)
         else Inl (UnknownOperation op))"

text \<open>
  The \<^verbatim>\<open>CallToolRequestSchema\<close> handler: \<^verbatim>\<open>validateRequest\<close>, the schema parse, then
  \<^verbatim>\<open>routeRequest\<close>. An error thrown on the way is caught and becomes the error envelope
  (\<open>Inl\<close>); otherwise the routed call runs (\<open>Inr\<close>).
\<close>

definition handleCallTool :: "request \<Rightarrow> error + handler_call" where
  "handleCallTool req =
     (case validateRequest req of
        Inl e \<Rightarrow> Inl e
      | Inr ok \<Rightarrow>
          (case schema_parse (the (arguments req)) of
             Inl e \<Rightarrow> Inl e
           | Inr validatedArgs \<Rightarrow> routeRequest (name req) validatedArgs))"

text \<open>
  The view a service method has of the untyped filters: \<^verbatim>\<open>filters.customerTier\<close> and the
  other four property reads; any other key is never read. The view is defined when
  each of the five properties is absent or an array of strings.
\<close>

fun strings_of :: "jsval list \<Rightarrow> string list option" where
  "strings_of [] = Some []"
| "strings_of (JString s # rest) =
     (case strings_of rest of None \<Rightarrow> None | Some ss \<Rightarrow> Some (s # ss))"
| "strings_of (v # rest) = None"

definition property_read :: "(string \<times> jsval) list \<Rightarrow> string \<Rightarrow> string list option option" where
  "property_read fs key =
     (case map_of fs key of
        None \<Rightarrow> Some None
      | Some (JArray vs) \<Rightarrow> (case strings_of vs of None \<Rightarrow> None | Some ss \<Rightarrow> Some (Some ss))
      | Some v \<Rightarrow> None)"

definition Filters_view :: "(string \<times> jsval) list \<Rightarrow> Filters option" where
  "Filters_view fs =
     (case (property_read fs ''customerTier'', property_read fs ''industry'',
            property_read fs ''region'', property_read fs ''productCategory'',
            property_read fs ''status'') of
        (Some t, Some i, Some r, Some p, Some s) \<Rightarrow>
          Some \<lparr>customerTier = t, industry = i, region = r, productCategory = p, status = s\<rparr>
      | _ \<Rightarrow> None)"


section \<open>Sales service: \<^verbatim>\<open>createSalesOpportunity\<close>\<close>

text \<open>
  The store as this operation sees it: the \<^verbatim>\<open>customers\<close> and \<^verbatim>\<open>products\<close> tables, each a
  list of rows keyed by the primary key \<^verbatim>\<open>id\<close> (\<open>'c\<close> and \<open>'p\<close> are the row types), and the
  statements executed so far, each with its bound parameters. The other tables are the
  record's extension.
\<close>

record ('c, 'p) database =
  customers :: "(string \<times> 'c) list"
  products :: "(string \<times> 'p) list"
  executed :: "(string \<times> string list) list"

text \<open>
  \<^verbatim>\<open>this.get(sql, [id])\<close> for the two statements of the operation: the row with that
  primary key, or \<^verbatim>\<open>undefined\<close>; the store records the statement and is otherwise
  unchanged, as a \<^verbatim>\<open>SELECT\<close> leaves it.
\<close>

definition get_customer ::
  "('c, 'p, 'z) database_scheme \<Rightarrow> string \<Rightarrow> 'c option \<times> ('c, 'p, 'z) database_scheme" where
  "get_customer db cid =
     (map_of (customers db) cid,
      db\<lparr>executed := executed db @ [(''SELECT * FROM customers WHERE id = ?'', [cid])]\<rparr>)"

definition get_product ::
  "('c, 'p, 'z) database_scheme \<Rightarrow> string \<Rightarrow> 'p option \<times> ('c, 'p, 'z) database_scheme" where
  "get_product db pid =
     (map_of (products db) pid,
      db\<lparr>executed := executed db @ [(''SELECT * FROM products WHERE id = ?'', [pid])]\<rparr>)"

text \<open>
  The fields read from \<^verbatim>\<open>opportunityData\<close>, with the types the callers' documentation
  gives them: ids, notes and priority are strings, quantity and estimated value are
  numbers; \<open>None\<close> is an absent field. A string is falsy when empty, a number when 0.
  The fields \<^verbatim>\<open>notes\<close> and \<^verbatim>\<open>priority\<close> are \<open>in_notes\<close> and \<open>in_priority\<close> here, and the
  fields of the opportunity object carry the prefix \<open>opp_\<close>.
\<close>

record opportunityData =
  customerId :: "string option"
  productId :: "string option"
  quantity :: "real option"
  estimatedValue :: "real option"
  salesRepId :: "string option"
  in_notes :: "string option"
  in_priority :: "string option"

definition falsy_string :: "string option \<Rightarrow> bool" where
  "falsy_string s = (case s of None \<Rightarrow> True | Some v \<Rightarrow> v = [])"

definition falsy_number :: "real option \<Rightarrow> bool" where
  "falsy_number n = (case n of None \<Rightarrow> True | Some x \<Rightarrow> x = 0)"

text \<open>Decimal digits of a natural number, for \<^verbatim>\<open>`OPP${Date.now()}`\<close>.\<close>

definition digit_char :: "nat \<Rightarrow> char" where
  "digit_char d = ''0123456789'' ! d"

function decimal :: "nat \<Rightarrow> string" where
  "decimal n =
     (if n < 10 then [digit_char n]
      else decimal (n div 10) @ [digit_char (n mod 10)])"
  by pat_completeness auto
termination
  by (relation "measure (\<lambda>n. n)") auto

declare decimal.simps [simp del]

record ('c, 'p) opportunity =
  opp_id :: string
  opp_customerId :: string
  opp_productId :: string
  opp_quantity :: real
  opp_estimatedValue :: real
  opp_salesRepId :: "string option"
  opp_notes :: "string option"
  opp_priority :: string
  opp_status :: string
  createdAt :: string
  customer :: 'c
  product :: 'p

record ('c, 'p) opportunity_response =
  opportunity :: "('c, 'p) opportunity"
  message :: string
  nextSteps :: "string list"

text \<open>
  \<^verbatim>\<open>SalesService.createSalesOpportunity\<close>. \<open>nowMs\<close> is the value of \<^verbatim>\<open>Date.now()\<close> and
  \<open>nowIso\<close> the value of \<^verbatim>\<open>new Date().toISOString()\<close>. The result is the thrown error or the
  response, together with the store after the call.
\<close>

definition createSalesOpportunity ::
  "('c, 'p, 'z) database_scheme \<Rightarrow> nat \<Rightarrow> string \<Rightarrow> opportunityData \<Rightarrow>
   (error + ('c, 'p) opportunity_response) \<times> ('c, 'p, 'z) database_scheme" where
  "createSalesOpportunity db nowMs nowIso opportunityData =
     (if falsy_string (customerId opportunityData) \<or> falsy_string (productId opportunityData)
         \<or> falsy_number (quantity opportunityData)
         \<or> falsy_number (estimatedValue opportunityData)
      then (Inl MissingRequiredFields, db)
      else
        let cid = the (customerId opportunityData);
            pid = the (productId opportunityData);
            (customer_row, db1) = get_customer db cid
        in (case customer_row of
              None \<Rightarrow> (Inl (CustomerNotFound cid), db1)
            | Some c \<Rightarrow>
                let (product_row, db2) = get_product db1 pid
                in (case product_row of
                      None \<Rightarrow> (Inl (ProductNotFound pid), db2)
                    | Some p \<Rightarrow>
                        (Inr \<lparr>opportunity =
                               \<lparr>opp_id = ''OPP'' @ decimal nowMs,
                                opp_customerId = cid,
                                opp_productId = pid,
                                opp_quantity = the (quantity opportunityData),
                                opp_estimatedValue = the (estimatedValue opportunityData),
                                opp_salesRepId = salesRepId opportunityData,
                                opp_notes = in_notes opportunityData,
                                opp_priority = (case in_priority opportunityData of
                                                None \<Rightarrow> ''medium'' | Some pr \<Rightarrow> pr),
                                opp_status = ''open'',
                                createdAt = nowIso,
                                customer = c,
                                product = p\<rparr>,
                             message = ''Sales opportunity created successfully'',
                             nextSteps = [''Schedule follow-up call with customer'',
                                          ''Prepare product demonstration'',
                                          ''Create proposal document'']\<rparr>,
                         db2))))"

text \<open>A statement that only reads: its text starts with \<^verbatim>\<open>SELECT\<close>.\<close>

definition is_select :: "string \<times> string list \<Rightarrow> bool" where
  "is_select stmt = (take 7 (fst stmt) = ''SELECT '')"


section \<open>Theorems\<close>

subsection \<open>Stock status\<close>

text \<open>
  C7: on every inventory row the stock status is the three-way rule (at most the reorder
  level: "Low Stock"; otherwise at most twice the reorder level: "Medium Stock";
  otherwise "High Stock"), and \<^verbatim>\<open>get_inventory_insights\<close>, \<^verbatim>\<open>check_inventory_levels\<close>
  and the inventory export compute the same status for every pair of column values,
  NULLs included. Quantity 5, 9 and 11 at reorder level 5 are Low, Medium and High.
\<close>

theorem stock_status_consistent:
  "getInventoryInsights_stock_status (Some q) (Some r) = stock_status_rule q r
   \<and> checkInventoryLevels_stock_status (Some q) (Some r) = stock_status_rule q r
   \<and> exportInventoryData_stock_status (Some q) (Some r) = stock_status_rule q r
   \<and> getInventoryInsights_stock_status qo ro = checkInventoryLevels_stock_status qo ro
   \<and> exportInventoryData_stock_status qo ro = checkInventoryLevels_stock_status qo ro
   \<and> getInventoryInsights_stock_status (Some 5) (Some 5) = ''Low Stock''
   \<and> checkInventoryLevels_stock_status (Some 5) (Some 5) = ''Low Stock''
   \<and> getInventoryInsights_stock_status (Some 9) (Some 5) = ''Medium Stock''
   \<and> checkInventoryLevels_stock_status (Some 9) (Some 5) = ''Medium Stock''
   \<and> getInventoryInsights_stock_status (Some 11) (Some 5) = ''High Stock''
   \<and> checkInventoryLevels_stock_status (Some 11) (Some 5) = ''High Stock''"
  by (simp add: getInventoryInsights_stock_status_def checkInventoryLevels_stock_status_def
      exportInventoryData_stock_status_def stock_status_rule_def sql_le_def sql_mul_def
      sql_when_def mult.commute)

subsection \<open>Report Assembler\<close>

text \<open>Spreading a \<open>Set\<close> keeps exactly the first occurrence of every string.\<close>

lemma set_first_seen: "set (first_seen xs) = set xs"
  by (induction xs rule: first_seen.induct) auto

lemma distinct_first_seen: "distinct (first_seen xs)"
  by (induction xs rule: first_seen.induct) (auto simp: set_first_seen)

lemma foldl_set_add:
  "foldl set_add acc xs = acc @ first_seen (filter (\<lambda>y. y \<notin> set acc) xs)"
proof (induction xs arbitrary: acc)
  case Nil
  show ?case by simp
next
  case (Cons x xs)
  show ?case
  proof (cases "x \<in> set acc")
    case True
    then show ?thesis using Cons.IH [of acc] by (simp add: set_add_def)
  next
    case False
    have "filter (\<lambda>y. y \<notin> set (acc @ [x])) xs = filter (\<lambda>y. y \<noteq> x) (filter (\<lambda>y. y \<notin> set acc) xs)"
      by (induction xs) auto
    then show ?thesis using False Cons.IH [of "acc @ [x]"] by (simp add: set_add_def)
  qed
qed

lemma new_Set_first_seen: "new_Set xs = first_seen xs"
  by (simp add: new_Set_def foldl_set_add)

lemma forEach_from_late:
  "4 \<le> i \<Longrightarrow> forEach_from i recs plan = plan\<lparr>longTerm := longTerm plan @ map longTerm_item recs\<rparr>"
  by (induction recs arbitrary: i plan) (auto simp: plan_push_def)

lemma generateImplementationPlan_eq:
  "generateImplementationPlan u =
     \<lparr>immediate = map immediate_item (take 2 u),
      shortTerm = map shortTerm_item (take 2 (drop 2 u)),
      longTerm = map longTerm_item (drop 4 u)\<rparr>"
proof -
  consider "u = []" | a where "u = [a]" | a b where "u = [a, b]" | a b c where "u = [a, b, c]"
    | a b c d rest where "u = a # b # c # d # rest"
    by (metis list.exhaust)
  then show ?thesis
  proof cases
    case 5
    then show ?thesis
      by (simp add: generateImplementationPlan_def plan_push_def forEach_from_late numeral_2_eq_2 eval_nat_numeral)
  qed (simp_all add: generateImplementationPlan_def plan_push_def numeral_2_eq_2 eval_nat_numeral)
qed


text \<open>
  C8: the merged recommendation list of the Report Assembler has no duplicate string, holds
  the same strings as the merged arrays, and keeps them in first-seen order. The
  implementation plan is that list cut by position: the first two strings are the
  immediate tier, each with timeline "1-2 weeks", resources "Internal team" and priority
  "High"; the next two are the short-term tier, each with timeline "1-3 months",
  resources "Internal team + external consultants" and priority "Medium"; the rest are
  the long-term tier, each with timeline "3-6 months", resources "Strategic planning
  team" and priority "Low". Every immediate-tier recommendation is in the "all" list.
\<close>

theorem recommendations_deduplicated_and_tiered:
  assumes "report = generateRecommendations customerRecs salesRecs inventoryRecs"
  shows "distinct (rec_all report)
    \<and> set (rec_all report) = set (customerRecs @ salesRecs @ inventoryRecs)
    \<and> rec_all report = first_seen (customerRecs @ salesRecs @ inventoryRecs)
    \<and> immediate (rec_implementation report)
        = map (\<lambda>rec. \<lparr>recommendation = rec, timeline = ''1-2 weeks'',
                       resources = ''Internal team'', priority = ''High''\<rparr>)
            (take 2 (rec_all report))
    \<and> shortTerm (rec_implementation report)
        = map (\<lambda>rec. \<lparr>recommendation = rec, timeline = ''1-3 months'',
                       resources = ''Internal team + external consultants'',
                       priority = ''Medium''\<rparr>)
            (take 2 (drop 2 (rec_all report)))
    \<and> longTerm (rec_implementation report)
        = map (\<lambda>rec. \<lparr>recommendation = rec, timeline = ''3-6 months'',
                       resources = ''Strategic planning team'', priority = ''Low''\<rparr>)
            (drop 4 (rec_all report))
    \<and> set (map recommendation (immediate (rec_implementation report))) \<subseteq> set (rec_all report)"
proof -
  let ?merged = "customerRecs @ salesRecs @ inventoryRecs"
  have all_eq: "rec_all report = first_seen ?merged"
    using assms by (simp add: generateRecommendations_def Let_def new_Set_first_seen)
  have plan_eq: "rec_implementation report = generateImplementationPlan (rec_all report)"
    using assms by (simp add: generateRecommendations_def Let_def)
  have imm: "immediate_item = (\<lambda>rec. \<lparr>recommendation = rec, timeline = ''1-2 weeks'',
                       resources = ''Internal team'', priority = ''High''\<rparr>)"
    by (simp add: fun_eq_iff immediate_item_def)
  have short: "shortTerm_item = (\<lambda>rec. \<lparr>recommendation = rec, timeline = ''1-3 months'',
                       resources = ''Internal team + external consultants'',
                       priority = ''Medium''\<rparr>)"
    by (simp add: fun_eq_iff shortTerm_item_def)
  have long: "longTerm_item = (\<lambda>rec. \<lparr>recommendation = rec, timeline = ''3-6 months'',
                       resources = ''Strategic planning team'', priority = ''Low''\<rparr>)"
    by (simp add: fun_eq_iff longTerm_item_def)
  have rec_imm: "map recommendation (map immediate_item xs) = xs" for xs
    by (induction xs) (simp_all add: immediate_item_def)
  have "set (take 2 (rec_all report)) \<subseteq> set (rec_all report)"
    by (rule set_take_subset)
  then have sub: "set (map recommendation (immediate (rec_implementation report))) \<subseteq> set (rec_all report)"
    by (simp only: plan_eq generateImplementationPlan_eq implementation_plan.simps rec_imm)
  have tiers: "immediate (rec_implementation report) = map immediate_item (take 2 (rec_all report))"
    "shortTerm (rec_implementation report) = map shortTerm_item (take 2 (drop 2 (rec_all report)))"
    "longTerm (rec_implementation report) = map longTerm_item (drop 4 (rec_all report))"
    by (simp_all add: plan_eq generateImplementationPlan_eq)
  have facts: "distinct (rec_all report)" "set (rec_all report) = set ?merged"
    by (simp_all add: all_eq distinct_first_seen set_first_seen)
  show ?thesis
    using facts all_eq sub tiers [unfolded imm short long]
    by (intro conjI)
qed

theorem recommendations_deduplicated_and_tiered_witness:
  "rec_all (generateRecommendations [''a'', ''b'', ''c''] [''b'', ''d'', ''e''] [''a'', ''f'', ''c''])
     = [''a'', ''b'', ''c'', ''d'', ''e'', ''f'']
   \<and> immediate (rec_implementation
        (generateRecommendations [''a'', ''b'', ''c''] [''b'', ''d'', ''e''] [''a'', ''f'', ''c'']))
     = [\<lparr>recommendation = ''a'', timeline = ''1-2 weeks'', resources = ''Internal team'',
         priority = ''High''\<rparr>,
        \<lparr>recommendation = ''b'', timeline = ''1-2 weeks'', resources = ''Internal team'',
         priority = ''High''\<rparr>]
   \<and> shortTerm (rec_implementation
        (generateRecommendations [''a'', ''b'', ''c''] [''b'', ''d'', ''e''] [''a'', ''f'', ''c'']))
     = [\<lparr>recommendation = ''c'', timeline = ''1-3 months'',
         resources = ''Internal team + external consultants'', priority = ''Medium''\<rparr>,
        \<lparr>recommendation = ''d'', timeline = ''1-3 months'',
         resources = ''Internal team + external consultants'', priority = ''Medium''\<rparr>]
   \<and> longTerm (rec_implementation
        (generateRecommendations [''a'', ''b'', ''c''] [''b'', ''d'', ''e''] [''a'', ''f'', ''c'']))
     = [\<lparr>recommendation = ''e'', timeline = ''3-6 months'',
         resources = ''Strategic planning team'', priority = ''Low''\<rparr>,
        \<lparr>recommendation = ''f'', timeline = ''3-6 months'',
         resources = ''Strategic planning team'', priority = ''Low''\<rparr>]"
  using recommendations_deduplicated_and_tiered
    [OF refl, of "[''a'', ''b'', ''c'']" "[''b'', ''d'', ''e'']" "[''a'', ''f'', ''c'']"]
  by simp

subsection \<open>Numbers: NaN absorbs\<close>

lemma js_add_NaN_right [simp]: "js_add a NaN = NaN"
  by (cases a) simp_all

lemma js_sub_NaN_right [simp]: "js_sub a NaN = NaN"
  by (simp add: js_sub_def)

lemma js_mul_NaN_right [simp]: "js_mul a NaN = NaN"
  by (cases a) simp_all

lemma js_div_NaN_right [simp]: "js_div a NaN = NaN"
  by (cases a) simp_all

lemma Math_max_clamps: "x \<noteq> NaN \<Longrightarrow> js_ge (Math_max (Num 0) x) (Num 0)"
  by (cases x) (simp_all add: Math_max_def js_ge_def)

lemma Math_max_NaN: "Math_max a NaN = NaN"
  by (simp add: Math_max_def)

lemma Math_pow_NaN: "0 < n \<Longrightarrow> Math_pow NaN n = NaN"
  by (cases n) simp_all

subsection \<open>Ratio metrics\<close>

text \<open>
  With a zero denominator neither ratio is ever the number 0: the retention rate of a
  selection with no customer, and the margin over a revenue that is NULL or 0, are NaN
  or an infinity.
\<close>

lemma retentionRate_zero_customers:
  "total_customers customerRetention = 0 \<Longrightarrow> retentionRate customerRetention \<noteq> Num 0"
  by (simp add: retentionRate_def js_signed_inf_def)

lemma overallMargin_zero_revenue:
  "total_revenue = None \<or> total_revenue = Some 0 \<Longrightarrow>
   overallMargin profits total_revenue \<noteq> Num 0"
  by (cases "totalProfit profits")
     (auto simp add: overallMargin_def js_signed_inf_def split: if_splits)

text \<open>
  C2 (the code departs from it): over an empty order set the retention rate of
  \<^verbatim>\<open>analyze_customer_behavior\<close> (no customer, no repeat customer) and the profit margin
  of \<^verbatim>\<open>get_financial_summary\<close> (no product row, revenue NULL) are both NaN, where the
  claim requires exactly 0.
\<close>

theorem ratio_metrics_empty_order_set:
  "customerRetention_query [] = \<lparr>total_customers = 0, repeat_customers = 0\<rparr>
   \<and> analyzeCustomerBehavior_retentionRate [] = NaN
   \<and> totalProfit [] = Num 0
   \<and> overallMargin [] None = NaN"
  by (simp add: analyzeCustomerBehavior_retentionRate_def customerRetention_query_def
      retentionRate_def overallMargin_def totalProfit_def)

subsection \<open>Growth rate\<close>

lemma avg_revenue_Nil: "avg_revenue [] = NaN"
  by (simp add: avg_revenue_def sum_revenue_def)

text \<open>
  A history of at most six months has an empty older half. \<^verbatim>\<open>predictSalesTrends\<close> then
  yields NaN for every such history, and the guarded \<^verbatim>\<open>getSalesForecast\<close> yields 0.
\<close>

lemma predictSalesTrends_growthRate_short:
  "length historicalData \<le> 6 \<Longrightarrow> predictSalesTrends_growthRate historicalData = NaN"
  by (simp add: predictSalesTrends_growthRate_def olderMonths_def avg_revenue_Nil)

lemma getSalesForecast_growthRate_short:
  "length historicalData \<le> 6 \<Longrightarrow> getSalesForecast_growthRate historicalData = Num 0"
  by (simp add: getSalesForecast_growthRate_def olderMonths_def avg_revenue_Nil js_gt_def)

text \<open>Where the older half has a positive average the two functions agree.\<close>

lemma growthRate_guard_agrees:
  "js_gt (avg_revenue (olderMonths historicalData)) (Num 0) \<Longrightarrow>
   predictSalesTrends_growthRate historicalData = getSalesForecast_growthRate historicalData"
  by (simp add: predictSalesTrends_growthRate_def getSalesForecast_growthRate_def)

text \<open>
  C5 (the code departs from it): on the two-month history of the seeded store (January
  2024 with 70000 in two orders, December 2023 with 18000 in one; older half empty) the
  growth rate of \<^verbatim>\<open>predict_sales_trends\<close> is NaN, not 0, and on a seven-month history whose
  seventh month has revenue 0 it is positive infinity; the sibling
  \<^verbatim>\<open>getSalesForecast\<close> returns 0 on both.
\<close>

theorem predictSalesTrends_growthRate_unguarded:
  "predictSalesTrends_growthRate
     [\<lparr>month = ''2024-01'', revenue = Some 70000, orders = 2\<rparr>,
      \<lparr>month = ''2023-12'', revenue = Some 18000, orders = 1\<rparr>] = NaN
   \<and> getSalesForecast_growthRate
     [\<lparr>month = ''2024-01'', revenue = Some 70000, orders = 2\<rparr>,
      \<lparr>month = ''2023-12'', revenue = Some 18000, orders = 1\<rparr>] = Num 0
   \<and> predictSalesTrends_growthRate
     [\<lparr>month = ''2024-07'', revenue = Some 100, orders = 1\<rparr>,
      \<lparr>month = ''2024-06'', revenue = Some 100, orders = 1\<rparr>,
      \<lparr>month = ''2024-05'', revenue = Some 100, orders = 1\<rparr>,
      \<lparr>month = ''2024-04'', revenue = Some 100, orders = 1\<rparr>,
      \<lparr>month = ''2024-03'', revenue = Some 100, orders = 1\<rparr>,
      \<lparr>month = ''2024-02'', revenue = Some 100, orders = 1\<rparr>,
      \<lparr>month = ''2024-01'', revenue = Some 0, orders = 1\<rparr>] = PosInf
   \<and> getSalesForecast_growthRate
     [\<lparr>month = ''2024-07'', revenue = Some 100, orders = 1\<rparr>,
      \<lparr>month = ''2024-06'', revenue = Some 100, orders = 1\<rparr>,
      \<lparr>month = ''2024-05'', revenue = Some 100, orders = 1\<rparr>,
      \<lparr>month = ''2024-04'', revenue = Some 100, orders = 1\<rparr>,
      \<lparr>month = ''2024-03'', revenue = Some 100, orders = 1\<rparr>,
      \<lparr>month = ''2024-02'', revenue = Some 100, orders = 1\<rparr>,
      \<lparr>month = ''2024-01'', revenue = Some 0, orders = 1\<rparr>] = Num 0"
  by (simp add: predictSalesTrends_growthRate_def getSalesForecast_growthRate_def
      avg_revenue_def sum_revenue_def recentMonths_def olderMonths_def js_sub_def js_gt_def
      js_signed_inf_def)

subsection \<open>Forecast series\<close>

lemma upt_1_4: "[Suc 0 ..< 4] = [1, 2, 3]"
  by code_simp

lemma upt_1_13: "[Suc 0 ..< 13] = [1, 2, 3, 4, 5, 6, 7, 8, 9, 10, 11, 12]"
  by code_simp

text \<open>
  The confidence of a forecast point depends on its index alone: the three points of
  \<^verbatim>\<open>predictSalesTrends\<close> and the twelve of \<^verbatim>\<open>getRevenueForecast\<close> always carry these values,
  which decrease and stay at or above the floors 0.5 and 0.3.
\<close>

lemma predictSalesTrends_confidence:
  "map confidence (predictSalesTrends_forecast month_label historicalData)
     = [Num 0.9, Num 0.8, Num 0.7]"
  by (simp add: predictSalesTrends_forecast_def predictSalesTrends_point_def Let_def
      Math_max_def js_sub_def upt_1_4)

lemma getRevenueForecast_confidence:
  "map confidence (getRevenueForecast_forecast month_label total_revenue monthlyGrowth)
     = [Num 0.95, Num 0.9, Num 0.85, Num 0.8, Num 0.75, Num 0.7,
        Num 0.65, Num 0.6, Num 0.55, Num 0.5, Num 0.45, Num 0.4]"
  by (simp add: getRevenueForecast_forecast_def getRevenueForecast_point_def Let_def
      Math_max_def js_sub_def upt_1_13)

lemma predictSalesTrends_confidence_monotone:
  "non_increasing (map confidence (predictSalesTrends_forecast month_label historicalData))
   \<and> list_all (\<lambda>c. js_ge c (Num 0.5))
        (map confidence (predictSalesTrends_forecast month_label historicalData))"
  by (simp add: predictSalesTrends_confidence js_ge_def)

lemma getRevenueForecast_confidence_monotone:
  "non_increasing
     (map confidence (getRevenueForecast_forecast month_label total_revenue monthlyGrowth))
   \<and> list_all (\<lambda>c. js_ge c (Num 0.3))
        (map confidence (getRevenueForecast_forecast month_label total_revenue monthlyGrowth))"
  by (simp add: getRevenueForecast_confidence js_ge_def)

text \<open>
  C6 (the code departs from it): on the two-month history of the seeded store every
  predicted revenue of
  \<^verbatim>\<open>predict_sales_trends\<close> is NaN, because \<^verbatim>\<open>Math.max(0, NaN)\<close> is NaN, and NaN is not
  greater than or equal to 0; on two months of revenue 0 every forecasted revenue of
  \<^verbatim>\<open>get_revenue_forecast\<close> is NaN as well.
\<close>

theorem forecast_revenue_not_clamped:
  "map predicted_revenue (predictSalesTrends_forecast month_label
     [\<lparr>month = ''2024-01'', revenue = Some 70000, orders = 2\<rparr>,
      \<lparr>month = ''2023-12'', revenue = Some 18000, orders = 1\<rparr>]) = [NaN, NaN, NaN]
   \<and> map predicted_revenue (getRevenueForecast_forecast month_label (Some 0)
     [\<lparr>month = ''2024-02'', revenue = Some 0, orders = 1\<rparr>,
      \<lparr>month = ''2024-01'', revenue = Some 0, orders = 1\<rparr>])
     = [NaN, NaN, NaN, NaN, NaN, NaN, NaN, NaN, NaN, NaN, NaN, NaN]
   \<and> \<not> js_ge NaN (Num 0)"
  by (simp add: predictSalesTrends_forecast_def predictSalesTrends_point_def
      predictSalesTrends_growthRate_short getRevenueForecast_forecast_def
      getRevenueForecast_point_def getRevenueForecast_growthRate_def Let_def
      Math_max_NaN Math_pow_NaN js_sub_def js_ge_def upt_1_4 upt_1_13)

subsection \<open>Filter Compiler\<close>

text \<open>
  A one-value tier filter yields a WHERE clause that holds the value itself between two
  apostrophes, so two different values give two different query texts.
\<close>

lemma buildWhereClause_single_tier:
  "buildWhereClause
     \<lparr>customerTier = Some [v], industry = None, region = None, productCategory = None,
      status = None\<rparr> None
   = ''WHERE c.customer_tier IN ('' @ quoted v @ '')''"
  by (simp add: buildWhereClause_def in_condition_def date_condition_def where_text_def)

lemma buildWhereClause_depends_on_value:
  "v \<noteq> w \<Longrightarrow>
   buildWhereClause
     \<lparr>customerTier = Some [v], industry = None, region = None, productCategory = None,
      status = None\<rparr> None
   \<noteq> buildWhereClause
     \<lparr>customerTier = Some [w], industry = None, region = None, productCategory = None,
      status = None\<rparr> None"
  by (simp add: buildWhereClause_single_tier quoted_def)

text \<open>
  C1 (the code departs from it): both \<^verbatim>\<open>buildWhereClause\<close> functions splice filter and
  date values into the WHERE text. The tier \<^verbatim>\<open>gold\<close> and the tier \<^verbatim>\<open>x') OR ('1'='1\<close> give
  different texts, the second one with a condition the caller wrote; a start date is
  spliced the same way. The sibling \<^verbatim>\<open>checkInventoryLevels\<close> keeps the same value out of
  its text, behind a \<^verbatim>\<open>?\<close> placeholder.
\<close>

theorem filter_values_spliced_into_where_text:
  "buildWhereClause
     \<lparr>customerTier = Some [''gold''], industry = None, region = None,
      productCategory = None, status = None\<rparr> None
     = ''WHERE c.customer_tier IN ('gold')''
   \<and> buildWhereClause
     \<lparr>customerTier = Some [''x') OR ('1'='1''], industry = None, region = None,
      productCategory = None, status = None\<rparr> None
     = ''WHERE c.customer_tier IN ('x') OR ('1'='1')''
   \<and> SalesService_buildWhereClause
     \<lparr>customerTier = Some [''gold''], industry = None, region = None,
      productCategory = None, status = None\<rparr> None
     = ''WHERE c.customer_tier IN ('gold')''
   \<and> SalesService_buildWhereClause
     \<lparr>customerTier = Some [''x') OR ('1'='1''], industry = None, region = None,
      productCategory = None, status = None\<rparr> None
     = ''WHERE c.customer_tier IN ('x') OR ('1'='1')''
   \<and> buildWhereClause
     \<lparr>customerTier = None, industry = None, region = None, productCategory = None,
      status = None\<rparr>
     (Some \<lparr>start_date = Some ''2024-01-01' OR '1'='1'', end_date = None\<rparr>)
     = ''WHERE o.order_date >= '2024-01-01' OR '1'='1'' @ [CHR 0x27]
   \<and> checkInventoryLevels_where
     \<lparr>category = Some ''x') OR ('1'='1'', warehouse = None, lowStockOnly = False\<rparr>
     = (''WHERE p.status = \"active\" AND p.category = ?'', [''x') OR ('1'='1''])"
  by (simp add: buildWhereClause_def SalesService_buildWhereClause_def in_condition_def
      date_condition_def where_text_def quoted_def checkInventoryLevels_where_def)

subsection \<open>Dispatcher and validators\<close>

text \<open>
  The validators themselves reject what the claims name: \<^verbatim>\<open>validateFilters\<close> throws on a
  first key outside the allow-list, and \<^verbatim>\<open>validateDateRange\<close> throws when both dates parse
  and the start is later than the end, whatever the date parser.
\<close>

lemma validateFilters_invalid_key_first:
  "key \<notin> set validFilterKeys \<Longrightarrow>
   validateFilters (Some ((key, v) # rest)) = Inl (InvalidFilterKey key)"
  by (simp add: validateFilters_def)

lemma validateDateRange_start_after_end:
  "present (start_date d) \<Longrightarrow> present (end_date d) \<Longrightarrow>
   parse (the (start_date d)) = Some a \<Longrightarrow> parse (the (end_date d)) = Some b \<Longrightarrow> b < a \<Longrightarrow>
   validateDateRange parse (Some d) = Inl InvalidDateRange"
  by (simp add: validateDateRange_def isValidDate_def)

text \<open>
  The handler never calls them. A request that passes \<^verbatim>\<open>validateRequest\<close> and names a
  known operation is routed with its filters and date range untouched.
\<close>

lemma handleCallTool_routes_unvalidated:
  "handleCallTool
     \<lparr>name = ''business_intelligence'',
      arguments = Some \<lparr>operation = ''get_operational_metrics'', parameters = ps,
        filters = Some fs, dateRange = dr, format = None\<rparr>\<rparr>
   = Inr (getOperationalMetrics_call fs dr)"
  by (simp add: handleCallTool_def validateRequest_def validTools_def schema_parse_def
      operations_def routeRequest_def)

text \<open>
  C3 (the code departs from it): a \<^verbatim>\<open>get_operational_metrics\<close> request whose filters hold
  the key \<^verbatim>\<open>password\<close> is not rejected. The handler routes it to \<^verbatim>\<open>getOperationalMetrics\<close>,
  which reads none of the unknown keys and sends its first statement to the store;
  \<^verbatim>\<open>validateFilters\<close>, which would have thrown \<^verbatim>\<open>Invalid filter key: password\<close>, is never
  called.
\<close>

theorem invalid_filter_key_reaches_handler:
  "handleCallTool
     \<lparr>name = ''business_intelligence'',
      arguments = Some \<lparr>operation = ''get_operational_metrics'', parameters = None,
        filters = Some [(''password'', JArray [JString ''x''])],
        dateRange = None, format = None\<rparr>\<rparr>
     = Inr (getOperationalMetrics_call [(''password'', JArray [JString ''x''])] None)
   \<and> Filters_view [(''password'', JArray [JString ''x''])]
     = Some \<lparr>customerTier = None, industry = None, region = None, productCategory = None,
             status = None\<rparr>
   \<and> orderMetrics_sql
        \<lparr>customerTier = None, industry = None, region = None, productCategory = None,
         status = None\<rparr> None
     = ''SELECT COUNT(*) as total_orders, COUNT(CASE WHEN status = 'delivered' THEN 1 END) as delivered_orders, COUNT(CASE WHEN status = 'cancelled' THEN 1 END) as cancelled_orders, AVG(julianday('now') - julianday(order_date)) as avg_order_age_days FROM orders o JOIN customers c ON o.customer_id = c.id ''
   \<and> validateFilters (Some [(''password'', JArray [JString ''x''])])
     = Inl (InvalidFilterKey ''password'')"
  by (simp add: handleCallTool_def validateRequest_def validTools_def schema_parse_def
      operations_def routeRequest_def Filters_view_def property_read_def orderMetrics_sql_def
      buildWhereClause_def in_condition_def date_condition_def where_text_def
      validateFilters_def validFilterKeys_def)

text \<open>
  C4 (the code departs from it): a \<^verbatim>\<open>get_operational_metrics\<close> request with start
  \<^verbatim>\<open>2024-03-01\<close> and end \<^verbatim>\<open>2024-01-01\<close> is not rejected. The handler routes it, and the
  WHERE clause of the statements sent to the store carries both bounds;
  \<^verbatim>\<open>validateDateRange\<close>, which would have thrown \<^verbatim>\<open>Start date cannot be after end date\<close>, is
  never called.
\<close>

theorem reversed_date_range_reaches_handler:
  "handleCallTool
     \<lparr>name = ''business_intelligence'',
      arguments = Some \<lparr>operation = ''get_operational_metrics'', parameters = None,
        filters = None,
        dateRange = Some \<lparr>start_date = Some ''2024-03-01'', end_date = Some ''2024-01-01''\<rparr>,
        format = None\<rparr>\<rparr>
     = Inr (getOperationalMetrics_call []
         (Some \<lparr>start_date = Some ''2024-03-01'', end_date = Some ''2024-01-01''\<rparr>))
   \<and> Filters_view []
     = Some \<lparr>customerTier = None, industry = None, region = None, productCategory = None,
             status = None\<rparr>
   \<and> buildWhereClause
        \<lparr>customerTier = None, industry = None, region = None, productCategory = None,
         status = None\<rparr>
        (Some \<lparr>start_date = Some ''2024-03-01'', end_date = Some ''2024-01-01''\<rparr>)
     = ''WHERE o.order_date >= '2024-03-01' AND o.order_date <= '2024-01-01'' @ [CHR 0x27]
   \<and> validateDateRange parse_date_only
        (Some \<lparr>start_date = Some ''2024-03-01'', end_date = Some ''2024-01-01''\<rparr>)
     = Inl InvalidDateRange"
  by (simp add: handleCallTool_def validateRequest_def validTools_def schema_parse_def
      operations_def routeRequest_def Filters_view_def property_read_def
      buildWhereClause_def in_condition_def date_condition_def where_text_def quoted_def
      validateDateRange_def isValidDate_def present_def parse_date_only_def digit_value_def
      days_from_civil_def Let_def)

subsection \<open>Creating a sales opportunity\<close>


text \<open>A missing or falsy required field is reported before any row is looked up.\<close>

lemma createSalesOpportunity_missing_fields:
  "falsy_string (customerId d) \<or> falsy_string (productId d)
     \<or> falsy_number (quantity d) \<or> falsy_number (estimatedValue d) \<Longrightarrow>
   createSalesOpportunity db nowMs nowIso d = (Inl MissingRequiredFields, db)"
  by (simp add: createSalesOpportunity_def)




text \<open>
  C10: a successful call only reads. It executes the two \<^verbatim>\<open>SELECT\<close>s for the customer and
  the product row and nothing else, every table is as before, and the opportunity it
  returns is built in memory: id \<^verbatim>\<open>OPP\<close> followed by the timestamp, status \<^verbatim>\<open>open\<close>, the two
  rows read, and the fields of the request. No statement stores it.
\<close>

theorem createSalesOpportunity_success_reads_only:
  assumes "\<not> falsy_string (customerId d)" and "\<not> falsy_string (productId d)"
    and "\<not> falsy_number (quantity d)" and "\<not> falsy_number (estimatedValue d)"
    and "map_of (customers db) (the (customerId d)) = Some c"
    and "map_of (products db) (the (productId d)) = Some p"
  shows "createSalesOpportunity db nowMs nowIso d =
           (Inr \<lparr>opportunity =
                   \<lparr>opp_id = ''OPP'' @ decimal nowMs,
                    opp_customerId = the (customerId d),
                    opp_productId = the (productId d),
                    opp_quantity = the (quantity d),
                    opp_estimatedValue = the (estimatedValue d),
                    opp_salesRepId = salesRepId d,
                    opp_notes = in_notes d,
                    opp_priority = (case in_priority d of None \<Rightarrow> ''medium'' | Some pr \<Rightarrow> pr),
                    opp_status = ''open'',
                    createdAt = nowIso,
                    customer = c,
                    product = p\<rparr>,
                 message = ''Sales opportunity created successfully'',
                 nextSteps = [''Schedule follow-up call with customer'',
                              ''Prepare product demonstration'',
                              ''Create proposal document'']\<rparr>,
            db\<lparr>executed := executed db
                 @ [(''SELECT * FROM customers WHERE id = ?'', [the (customerId d)]),
                    (''SELECT * FROM products WHERE id = ?'', [the (productId d)])]\<rparr>)
       \<and> customers (snd (createSalesOpportunity db nowMs nowIso d)) = customers db
       \<and> products (snd (createSalesOpportunity db nowMs nowIso d)) = products db
       \<and> database.more (snd (createSalesOpportunity db nowMs nowIso d)) = database.more db
       \<and> list_all is_select
            (drop (length (executed db))
               (executed (snd (createSalesOpportunity db nowMs nowIso d))))"
  using assms
  by (simp add: createSalesOpportunity_def get_customer_def get_product_def Let_def
      is_select_def)

theorem createSalesOpportunity_success_reads_only_witness:
  "createSalesOpportunity
        \<lparr>customers = [(''CUST001'', ''Acme'')], products = [(''PROD001'', ''Laptop'')],
         executed = []\<rparr>
        1700000000000 ''2023-11-14T22:13:20.000Z''
        \<lparr>customerId = Some ''CUST001'', productId = Some ''PROD001'', quantity = Some 3,
         estimatedValue = Some 5000, salesRepId = None, in_notes = None, in_priority = None\<rparr>
     = (Inr \<lparr>opportunity =
               \<lparr>opp_id = ''OPP1700000000000'',
                opp_customerId = ''CUST001'',
                opp_productId = ''PROD001'',
                opp_quantity = 3,
                opp_estimatedValue = 5000,
                opp_salesRepId = None,
                opp_notes = None,
                opp_priority = ''medium'',
                opp_status = ''open'',
                createdAt = ''2023-11-14T22:13:20.000Z'',
                customer = ''Acme'',
                product = ''Laptop''\<rparr>,
             message = ''Sales opportunity created successfully'',
             nextSteps = [''Schedule follow-up call with customer'',
                          ''Prepare product demonstration'',
                          ''Create proposal document'']\<rparr>,
        \<lparr>customers = [(''CUST001'', ''Acme'')], products = [(''PROD001'', ''Laptop'')],
         executed = [(''SELECT * FROM customers WHERE id = ?'', [''CUST001'']),
                     (''SELECT * FROM products WHERE id = ?'', [''PROD001''])]\<rparr>)"
proof -
  have digits: "decimal 1700000000000 = ''1700000000000''"
    by (simp add: decimal.simps digit_char_def)
  show ?thesis
    using createSalesOpportunity_success_reads_only
      [of "\<lparr>customerId = Some ''CUST001'', productId = Some ''PROD001'', quantity = Some 3,
           estimatedValue = Some 5000, salesRepId = None, in_notes = None, in_priority = None\<rparr>"
          "\<lparr>customers = [(''CUST001'', ''Acme'')], products = [(''PROD001'', ''Laptop'')],
           executed = []\<rparr>"
          "''Acme''" "''Laptop''" 1700000000000 "''2023-11-14T22:13:20.000Z''"]
    by (simp add: falsy_string_def falsy_number_def digits)
qed

end
